theory Spec2Isabelle
  imports Complex_Main
begin

section \<open>GPS path tracker: the device tracker (trj.js) and the vehicle dashboard (script.js)\<close>

text \<open>
  The repository holds the tracking logic twice: \<^verbatim>\<open>trj.js\<close> follows the browser's
  geolocation watch, \<^verbatim>\<open>script.js\<close> follows the polled vehicle telemetry. Both are
  embedded here, function by function, under the names of the source.

  Coordinates, view ranges and projected points are real numbers. A distance and the
  total distance are \<open>jsnum\<close>, a real number or \<^verbatim>\<open>NaN\<close>, with the comparisons and
  the addition of JavaScript: the rounding of double arithmetic is modelled where it
  decides what the code does, in the haversine term of \<^verbatim>\<open>calculateDistance\<close>, and
  finite results are otherwise exact. \<^verbatim>\<open>Date.now()\<close> is a parameter of the function
  that reads it; a value that may be \<^verbatim>\<open>null\<close> is an \<open>option\<close>. Drawing on the canvas
  and writing to the console are not modelled beyond a count of the redraw requests.
\<close>

subsection \<open>Numbers that may be NaN\<close>

datatype jsnum = Finite real | NaN

text \<open>
  \<^verbatim>\<open><\<close>, \<^verbatim>\<open>>=\<close> and \<^verbatim>\<open>===\<close> are false as soon as one side is \<^verbatim>\<open>NaN\<close>; \<^verbatim>\<open>+\<close>,
  \<^verbatim>\<open>*\<close> and \<^verbatim>\<open>Math.atan2\<close> give \<^verbatim>\<open>NaN\<close> as soon as one argument is; \<^verbatim>\<open>Math.sqrt\<close>
  of a negative number is \<^verbatim>\<open>NaN\<close>.
\<close>

fun js_lt :: "jsnum \<Rightarrow> jsnum \<Rightarrow> bool" where
  "js_lt (Finite a) (Finite b) = (a < b)"
| "js_lt _ _ = False"

fun js_ge :: "jsnum \<Rightarrow> jsnum \<Rightarrow> bool" where
  "js_ge (Finite a) (Finite b) = (b \<le> a)"
| "js_ge _ _ = False"

fun js_eq :: "jsnum \<Rightarrow> jsnum \<Rightarrow> bool" where
  "js_eq (Finite a) (Finite b) = (a = b)"
| "js_eq _ _ = False"

fun js_add :: "jsnum \<Rightarrow> jsnum \<Rightarrow> jsnum" where
  "js_add (Finite a) (Finite b) = Finite (a + b)"
| "js_add _ _ = NaN"

fun js_mul :: "jsnum \<Rightarrow> jsnum \<Rightarrow> jsnum" where
  "js_mul (Finite a) (Finite b) = Finite (a * b)"
| "js_mul _ _ = NaN"

definition js_sqrt :: "real \<Rightarrow> jsnum" where
  "js_sqrt a = (if a < 0 then NaN else Finite (sqrt a))"

subsection \<open>Configuration (trj.js, CONFIG)\<close>

definition SCALE :: real where "SCALE = 3"
definition MARGIN :: real where "MARGIN = 40"
definition MIN_DISTANCE :: real where "MIN_DISTANCE = 1"
definition MIN_TIME_BETWEEN :: int where "MIN_TIME_BETWEEN = 1000"
definition EARTH_RADIUS :: real where "EARTH_RADIUS = 6371000"
definition GPS_TIMEOUT :: nat where "GPS_TIMEOUT = 15000"
definition AUTO_RETRY_DELAY :: nat where "AUTO_RETRY_DELAY = 3000"
definition GRID_SIZES :: "real list" where "GRID_SIZES = [1, 2, 5, 10, 20, 50, 100]"

subsection \<open>Math.atan2\<close>

text \<open>
  The two-argument arctangent of the JavaScript library: the angle of the point
  \<open>(x, y)\<close>, in \<open>(-\<pi>, \<pi>]\<close>, with \<open>atan2 0 0 = 0\<close>.
\<close>

definition atan2 :: "real \<Rightarrow> real \<Rightarrow> real" where
  "atan2 y x =
     (if 0 < x then arctan (y / x)
      else if x < 0 \<and> 0 \<le> y then arctan (y / x) + pi
      else if x < 0 then arctan (y / x) - pi
      else if 0 < y then pi / 2
      else if y < 0 then - (pi / 2)
      else 0)"

fun js_atan2 :: "jsnum \<Rightarrow> jsnum \<Rightarrow> jsnum" where
  "js_atan2 (Finite y) (Finite x) = Finite (atan2 y x)"
| "js_atan2 _ _ = NaN"

subsection \<open>Distance (trj.js calculateDistance; script.js has the same body)\<close>

text \<open>
  \<open>haversine_a\<close> is the exact value of the term \<^verbatim>\<open>a\<close>. The code computes the term in
  double arithmetic, whose rounding is not modelled: the first argument of
  \<open>calculateDistance\<close> gives the rounding error of the engine at the four coordinates,
  so that \<open>a\<close> below is the number the engine holds. Nothing is assumed of it.
\<close>

definition haversine_a :: "real \<Rightarrow> real \<Rightarrow> real \<Rightarrow> real \<Rightarrow> real" where
  "haversine_a lat1 lon1 lat2 lon2 =
     (let dLat = (lat2 - lat1) * pi / 180;
          dLon = (lon2 - lon1) * pi / 180
      in (sin (dLat / 2))\<^sup>2 +
         cos (lat1 * pi / 180) * cos (lat2 * pi / 180) * (sin (dLon / 2))\<^sup>2)"

type_synonym rounding = "real \<Rightarrow> real \<Rightarrow> real \<Rightarrow> real \<Rightarrow> real"

definition calculateDistance :: "rounding \<Rightarrow> real \<Rightarrow> real \<Rightarrow> real \<Rightarrow> real \<Rightarrow> jsnum" where
  "calculateDistance rnd lat1 lon1 lat2 lon2 =
     (let a = haversine_a lat1 lon1 lat2 lon2 + rnd lat1 lon1 lat2 lon2
      in js_mul (Finite (EARTH_RADIUS * 2)) (js_atan2 (js_sqrt a) (js_sqrt (1 - a))))"

subsection \<open>Projection (trj.js gpsToXY)\<close>

text \<open>The function reads \<^verbatim>\<open>state.originGPS\<close>; the origin is its first argument here.\<close>

definition gpsToXY :: "(real \<times> real) option \<Rightarrow> real \<Rightarrow> real \<Rightarrow> real \<times> real" where
  "gpsToXY origin lat lon =
     (case origin of
        None \<Rightarrow> (0, 0)
      | Some (olat, olon) \<Rightarrow>
          (let dLat = lat - olat;
               dLon = lon - olon
           in (dLon * (pi / 180) * EARTH_RADIUS * cos (olat * pi / 180),
               dLat * (pi / 180) * EARTH_RADIUS)))"

subsection \<open>Grid spacing\<close>

text \<open>
  trj.js getGridSpacing: the loop runs the index from \<open>length - 1\<close> down to \<open>0\<close>; the
  counter of \<open>gridScan\<close> is the index plus one, so \<open>0\<close> is the end of the loop.
\<close>

fun gridScan :: "real \<Rightarrow> real list \<Rightarrow> nat \<Rightarrow> real option" where
  "gridScan viewRange sizes 0 = None"
| "gridScan viewRange sizes (Suc i) =
     (if 4 \<le> viewRange / sizes ! i then Some (sizes ! i)
      else gridScan viewRange sizes i)"

definition gridSpacingOf :: "real \<Rightarrow> real" where
  "gridSpacingOf viewRange =
     (case gridScan viewRange GRID_SIZES (length GRID_SIZES) of
        Some s \<Rightarrow> s
      | None \<Rightarrow> GRID_SIZES ! 0)"

text \<open>script.js getGridSpacing: a chain of fixed thresholds.\<close>

definition gridSpacingOf_vehicle :: "real \<Rightarrow> real" where
  "gridSpacingOf_vehicle viewRange =
     (if 500 < viewRange then 100
      else if 200 < viewRange then 50
      else if 100 < viewRange then 20
      else if 50 < viewRange then 10
      else if 20 < viewRange then 5
      else if 10 < viewRange then 2
      else 1)"

section \<open>The device tracker (trj.js)\<close>

subsection \<open>Data\<close>

text \<open>
  A point of \<^verbatim>\<open>state.path\<close>. The fields are those of the object pushed by the source
  (\<^verbatim>\<open>x, y, lat, lon, timestamp, accuracy, speed\<close>), prefixed so that they do not
  capture the variables of later statements.
\<close>

record path_point =
  pt_x :: real
  pt_y :: real
  pt_lat :: real
  pt_lon :: real
  pt_timestamp :: int
  pt_accuracy :: real
  pt_speed :: real

text \<open>
  The global \<^verbatim>\<open>state\<close> of trj.js. \<open>canvasWidth\<close> is \<^verbatim>\<open>state.canvas.width\<close>; the
  drawing context is not modelled. The same fields, with the same roles, make up the
  \<^verbatim>\<open>gpsTracker\<close> object of script.js (where \<^verbatim>\<open>lastUpdateTime\<close> is never read or
  written).
\<close>

record state =
  watchId :: "nat option"
  originGPS :: "(real \<times> real) option"
  path :: "path_point list"
  totalDistance :: jsnum
  startTime :: "int option"
  lastUpdateTime :: int
  pixelsPerMeter :: real
  canvasWidth :: real

text \<open>
  What the functions touch outside \<^verbatim>\<open>state\<close>: whether \<^verbatim>\<open>navigator.geolocation\<close>
  exists, the position watches that are active (\<^verbatim>\<open>watchPosition\<close> hands out a fresh
  positive id each time), the callbacks given to \<^verbatim>\<open>setTimeout\<close> with their delays, the
  number of redraw requests, and the rounding of the engine in \<^verbatim>\<open>calculateDistance\<close>.
\<close>

datatype callback = CB_startTracking | CB_startGPSTracking

record host = state +
  geolocation :: bool
  watches :: "nat list"
  watchCount :: nat
  timers :: "(callback \<times> nat) list"
  redraws :: nat
  rounding :: rounding

text \<open>
  The page of trj.js: \<open>status\<close> is what \<^verbatim>\<open>updateStatus\<close> wrote last, as the pair of
  the status class (\<^verbatim>\<open>searching\<close>, \<^verbatim>\<open>locked\<close>, \<^verbatim>\<open>error\<close>) and the status value;
  \<open>None\<close> is the page's own markup before any call. The message text is not modelled.
\<close>

record device = host +
  status :: "(string \<times> string) option"

record coords =
  latitude :: real
  longitude :: real
  accuracy :: real
  speed :: "real option"

definition init_device :: "real \<Rightarrow> bool \<Rightarrow> rounding \<Rightarrow> device" where
  "init_device w geo rnd =
     \<lparr> watchId = None, originGPS = None, path = [], totalDistance = Finite 0,
       startTime = None, lastUpdateTime = 0, pixelsPerMeter = SCALE, canvasWidth = w,
       geolocation = geo, watches = [], watchCount = 0,
       timers = [(CB_startTracking, 500)], redraws = 1, rounding = rnd,
       status = None \<rparr>"

subsection \<open>Functions\<close>

definition watchPosition :: "('a host_scheme) \<Rightarrow> ('a host_scheme)" where
  "watchPosition pg =
     (let wid = Suc (watchCount pg)
      in pg\<lparr> watchId := Some wid, watches := watches pg @ [wid], watchCount := wid \<rparr>)"

definition updateStatus :: "string \<Rightarrow> string \<Rightarrow> device \<Rightarrow> device" where
  "updateStatus type statusValue pg = pg\<lparr> status := Some (type, statusValue) \<rparr>"

definition drawCanvas :: "('a host_scheme) \<Rightarrow> ('a host_scheme)" where
  "drawCanvas pg = pg\<lparr> redraws := Suc (redraws pg) \<rparr>"

definition getGridSpacing :: "('a state_scheme) \<Rightarrow> real" where
  "getGridSpacing s = gridSpacingOf ((canvasWidth s - MARGIN * 2) / pixelsPerMeter s)"

definition startTracking :: "device \<Rightarrow> device" where
  "startTracking pg =
     (if \<not> geolocation pg then updateStatus ''error'' ''Not Supported'' pg
      else watchPosition (updateStatus ''searching'' ''Searching'' pg))"

text \<open>
  The distance of a fix from the last recorded point, and the time since the last
  update, as \<^verbatim>\<open>handlePosition\<close> computes them when the path is not empty.
\<close>

definition distFromLast :: "('a host_scheme) \<Rightarrow> real \<Rightarrow> real \<Rightarrow> jsnum" where
  "distFromLast s lat lon =
     calculateDistance (rounding s) (pt_lat (last (path s))) (pt_lon (last (path s))) lat lon"

definition handlePosition :: "coords \<Rightarrow> int \<Rightarrow> device \<Rightarrow> device" where
  "handlePosition position now pg =
     (let lat = latitude position;
          lon = longitude position;
          acc = accuracy position;
          spd = (case speed position of None \<Rightarrow> 0 | Some v \<Rightarrow> v) * 3.6;
          timestamp = now;
          pg1 = (if originGPS pg = None
                 then updateStatus ''locked'' ''Tracking''
                        (pg\<lparr> originGPS := Some (lat, lon), startTime := Some timestamp \<rparr>)
                 else pg);
          push = (\<lambda>p.
            let p1 = p\<lparr> lastUpdateTime := timestamp \<rparr>;
                xy = gpsToXY (originGPS p1) lat lon
            in drawCanvas
                 (p1\<lparr> path := path p1 @
                     [\<lparr> pt_x = fst xy, pt_y = snd xy, pt_lat = lat, pt_lon = lon,
                        pt_timestamp = timestamp, pt_accuracy = acc, pt_speed = spd \<rparr>] \<rparr>))
      in if path pg1 \<noteq> [] then
           (let dist = distFromLast pg1 lat lon;
                timeDiff = timestamp - lastUpdateTime pg1
            in if js_lt dist (Finite MIN_DISTANCE) \<and> timeDiff < MIN_TIME_BETWEEN then pg1
               else if js_ge dist (Finite MIN_DISTANCE)
                    then push (pg1\<lparr> totalDistance := js_add (totalDistance pg1) dist \<rparr>)
                    else push pg1)
         else push pg1)"

text \<open>The codes of a \<^verbatim>\<open>GeolocationPositionError\<close>.\<close>

definition PERMISSION_DENIED :: nat where "PERMISSION_DENIED = 1"
definition POSITION_UNAVAILABLE :: nat where "POSITION_UNAVAILABLE = 2"
definition TIMEOUT :: nat where "TIMEOUT = 3"

definition handleError :: "nat \<Rightarrow> device \<Rightarrow> device" where
  "handleError code pg =
     (if code = PERMISSION_DENIED then updateStatus ''error'' ''Permission Denied'' pg
      else if code = POSITION_UNAVAILABLE then updateStatus ''error'' ''Unavailable'' pg
      else if code = TIMEOUT
           then pg\<lparr> timers := timers pg @ [(CB_startTracking, AUTO_RETRY_DELAY)] \<rparr>
      else updateStatus ''error'' ''Error'' pg)"

definition resizeCanvas :: "real \<Rightarrow> device \<Rightarrow> device" where
  "resizeCanvas sz pg = drawCanvas (pg\<lparr> canvasWidth := sz \<rparr>)"

text \<open>
  The events of the page, each handled to completion: a timer that calls
  \<^verbatim>\<open>startTracking\<close>, a fix or an error from a watch, a resize.
\<close>

datatype event =
    EvStart
  | EvPosition coords int
  | EvError nat
  | EvResize real

fun step :: "device \<Rightarrow> event \<Rightarrow> device" where
  "step pg EvStart = startTracking pg"
| "step pg (EvPosition position now) = handlePosition position now pg"
| "step pg (EvError code) = handleError code pg"
| "step pg (EvResize sz) = resizeCanvas sz pg"

definition run :: "device \<Rightarrow> event list \<Rightarrow> device" where
  "run pg es = foldl step pg es"

section \<open>The vehicle dashboard (script.js)\<close>

subsection \<open>Data\<close>

text \<open>
  The part of the component that the tracker reads and writes: the \<^verbatim>\<open>gpsTracker\<close>
  object (the fields of \<open>state\<close>, \<open>isTracking\<close>, \<open>retryCount\<close>) and the position in
  \<^verbatim>\<open>vehicleData\<close>. \<open>vehicleLat\<close> and \<open>vehicleLong\<close> are \<^verbatim>\<open>vehicleData.lat\<close> and
  \<^verbatim>\<open>vehicleData.long\<close>: a number, or \<open>None\<close> when the telemetry has no such field.

  \<open>globalCtx\<close> says whether the page binds the identifiers \<^verbatim>\<open>ctx\<close> and \<^verbatim>\<open>canvas\<close> at
  global scope. script.js binds neither: every other function declares them locally, and
  \<^verbatim>\<open>gpsToLocalXY\<close> uses them without a declaration.
\<close>

record vehicle = host +
  isTracking :: bool
  retryCount :: nat
  vehicleLat :: "real option"
  vehicleLong :: "real option"
  globalCtx :: bool

datatype js_error = ReferenceError

text \<open>
  How a call ends: it returns, or an exception leaves it. The fields written before
  the exception keep their new values, so a call yields its completion and the state.
  Exceptions raised inside the drawing functions are not modelled: each of the calls
  below draws as its last access to the tracker, so such an exception would leave the
  state that is returned here.
\<close>

datatype completion = Returned | Thrown js_error

definition init_vehicle :: "real \<Rightarrow> bool \<Rightarrow> bool \<Rightarrow> rounding \<Rightarrow> vehicle" where
  "init_vehicle w geo gctx rnd =
     \<lparr> watchId = None, originGPS = None, path = [], totalDistance = Finite 0,
       startTime = None, lastUpdateTime = 0, pixelsPerMeter = 3, canvasWidth = w,
       geolocation = geo, watches = [], watchCount = 0, timers = [], redraws = 1,
       rounding = rnd,
       isTracking = False, retryCount = 0, vehicleLat = Some 0, vehicleLong = Some 0,
       globalCtx = gctx \<rparr>"

subsection \<open>Functions\<close>

text \<open>JavaScript truthiness of a number that may be missing.\<close>

definition truthy :: "real option \<Rightarrow> bool" where
  "truthy v = (case v of None \<Rightarrow> False | Some r \<Rightarrow> r \<noteq> 0)"

text \<open>The guard \<^verbatim>\<open>!lat || !lon || lat === 0 || lon === 0\<close>.\<close>

definition noFix :: "real option \<Rightarrow> real option \<Rightarrow> bool" where
  "noFix lat lon = (\<not> truthy lat \<or> \<not> truthy lon \<or> lat = Some 0 \<or> lon = Some 0)"

definition gpsToLocalXY :: "vehicle \<Rightarrow> real \<Rightarrow> real \<Rightarrow> js_error + real \<times> real" where
  "gpsToLocalXY pg lat lon =
     (case originGPS pg of
        None \<Rightarrow> Inr (0, 0)
      | Some (olat, olon) \<Rightarrow>
          (let dLat = lat - olat;
               dLon = lon - olon;
               x = dLon * (pi / 180) * EARTH_RADIUS * cos (olat * pi / 180);
               y = dLat * (pi / 180) * EARTH_RADIUS
           in if \<not> globalCtx pg then Inl ReferenceError
              else Inr (x, y)))"

definition getGridSpacing_vehicle :: "('a state_scheme) \<Rightarrow> real" where
  "getGridSpacing_vehicle s =
     gridSpacingOf_vehicle ((canvasWidth s - MARGIN * 2) / pixelsPerMeter s)"

definition drawGPSCanvas :: "vehicle \<Rightarrow> vehicle" where
  "drawGPSCanvas pg = pg\<lparr> redraws := Suc (redraws pg) \<rparr>"

definition updateGPSPosition :: "int \<Rightarrow> vehicle \<Rightarrow> completion \<times> vehicle" where
  "updateGPSPosition now pg =
     (if noFix (vehicleLat pg) (vehicleLong pg) then (Returned, pg)
      else
        (case (vehicleLat pg, vehicleLong pg) of
           (Some lat, Some lon) \<Rightarrow>
             (let timestamp = now;
                  pg1 = (if originGPS pg = None
                         then pg\<lparr> originGPS := Some (lat, lon), startTime := Some timestamp \<rparr>
                         else pg);
                  push = (\<lambda>p.
                    case gpsToLocalXY p lat lon of
                      Inl e \<Rightarrow> (Thrown e, p)
                    | Inr xy \<Rightarrow>
                        (Returned,
                         drawGPSCanvas
                           (p\<lparr> path := path p @
                               [\<lparr> pt_x = fst xy, pt_y = snd xy, pt_lat = lat, pt_lon = lon,
                                  pt_timestamp = timestamp, pt_accuracy = 1.0,
                                  pt_speed = 0 \<rparr>] \<rparr>)))
              in if path pg1 \<noteq> [] then
                   (let dist = distFromLast pg1 lat lon
                    in if js_lt dist (Finite 0.5) then (Returned, pg1)
                       else push (pg1\<lparr> totalDistance := js_add (totalDistance pg1) dist \<rparr>))
                 else push pg1)
         | _ \<Rightarrow> (Returned, pg)))"

definition updateGPSFromVehicle :: "int \<Rightarrow> vehicle \<Rightarrow> completion \<times> vehicle" where
  "updateGPSFromVehicle now pg =
     (if \<not> isTracking pg then (Returned, pg)
      else if noFix (vehicleLat pg) (vehicleLong pg) then (Returned, pg)
      else updateGPSPosition now pg)"

definition startGPSTracking :: "int \<Rightarrow> vehicle \<Rightarrow> vehicle" where
  "startGPSTracking now pg =
     (if isTracking pg then pg
      else if noFix (vehicleLat pg) (vehicleLong pg) then
        (let rc = Suc (retryCount pg)
         in if rc < 10
            then pg\<lparr> timers := timers pg @ [(CB_startGPSTracking, 2000)], retryCount := rc \<rparr>
            else pg\<lparr> retryCount := 0 \<rparr>)
      else
        (case (vehicleLat pg, vehicleLong pg) of
           (Some lat, Some lon) \<Rightarrow>
             (let pg1 = pg\<lparr> originGPS := Some (lat, lon), startTime := Some now,
                            isTracking := True, retryCount := 0 \<rparr>
              in if geolocation pg1 then watchPosition pg1 else pg1)
         | _ \<Rightarrow> pg))"

definition stopGPSTracking :: "vehicle \<Rightarrow> vehicle" where
  "stopGPSTracking pg =
     (let pg1 = (case watchId pg of
                   None \<Rightarrow> pg
                 | Some wid \<Rightarrow> if wid \<noteq> 0 then pg\<lparr> watches := removeAll wid (watches pg) \<rparr>
                               else pg)
      in pg1\<lparr> isTracking := False \<rparr>)"

text \<open>The argument \<open>confirmed\<close> is the answer of the \<^verbatim>\<open>confirm\<close> dialogue.\<close>

definition clearGPSPath :: "bool \<Rightarrow> vehicle \<Rightarrow> vehicle" where
  "clearGPSPath confirmed pg =
     (if \<not> confirmed then pg
      else
        (let pg1 = (if isTracking pg then stopGPSTracking pg else pg)
         in drawGPSCanvas
              (pg1\<lparr> path := [], originGPS := None, totalDistance := Finite 0,
                    startTime := None,
                    retryCount := 0 \<rparr>)))"

text \<open>
  The events of the dashboard: the telemetry poll stores the new position and calls
  \<^verbatim>\<open>updateGPSFromVehicle\<close>; the buttons and the retry timer call the three
  operations; the browser's own watch fills in a position when the vehicle has none.
\<close>

datatype vevent =
    VPoll "real option" "real option" int
  | VStart int
  | VStop
  | VClear bool
  | VBrowserFix coords

fun vstep :: "vehicle \<Rightarrow> vevent \<Rightarrow> vehicle" where
  "vstep pg (VPoll lat lon now) =
     snd (updateGPSFromVehicle now (pg\<lparr> vehicleLat := lat, vehicleLong := lon \<rparr>))"
| "vstep pg (VStart now) = startGPSTracking now pg"
| "vstep pg VStop = stopGPSTracking pg"
| "vstep pg (VClear confirmed) = clearGPSPath confirmed pg"
| "vstep pg (VBrowserFix position) =
     (if \<not> truthy (vehicleLat pg) \<or> vehicleLat pg = Some 0
      then pg\<lparr> vehicleLat := Some (latitude position),
                vehicleLong := Some (longitude position) \<rparr>
      else pg)"

definition vrun :: "vehicle \<Rightarrow> vevent list \<Rightarrow> vehicle" where
  "vrun pg es = foldl vstep pg es"

subsection \<open>Invariants of the dashboard\<close>

text \<open>
  \<open>originKept\<close>: recorded points have an origin. \<open>offAxes\<close>: no recorded point has
  latitude 0 or longitude 0.
\<close>

definition originKept :: "vehicle \<Rightarrow> bool" where
  "originKept vg = (path vg \<noteq> [] \<longrightarrow> originGPS vg \<noteq> None)"

definition offAxes :: "vehicle \<Rightarrow> bool" where
  "offAxes vg = (\<forall>p \<in> set (path vg). pt_lat p \<noteq> 0 \<and> pt_lon p \<noteq> 0)"

section \<open>Sample states\<close>

text \<open>
  The rounding of the engine at the coordinates used below. A fix at the place of the
  last point, and the half turn from \<open>(0, 0)\<close> to \<open>(0, 180)\<close>, are computed without
  error. For the antipodal pair \<open>(-12, -170)\<close>, \<open>(12, 10)\<close> the exact term is 1 and
  double arithmetic yields \<^verbatim>\<open>1.0000000000000002\<close>, the next double after 1, in either
  order of the two points. At other coordinates the value is not used.
\<close>

definition rnd_sample :: rounding where
  "rnd_sample lat1 lon1 lat2 lon2 =
     (if (lat1, lon1, lat2, lon2) = (- 12, - 170, 12, 10)
         \<or> (lat1, lon1, lat2, lon2) = (12, 10, - 12, - 170)
      then 1 / 2 ^ 52 else 0)"

text \<open>
  Two fixes on the equator, half a turn apart; the device tracker after its first fix;
  the dashboard after the vehicle reported a position, tracking was started and the
  next poll recorded the first point, at \<open>(-6, 106)\<close> and at \<open>(-12, -170)\<close>.
\<close>

definition fix0 :: coords where
  "fix0 = \<lparr> latitude = 0, longitude = 0, accuracy = 5, speed = None \<rparr>"

definition fix180 :: coords where
  "fix180 = \<lparr> latitude = 0, longitude = 180, accuracy = 5, speed = None \<rparr>"

definition locked0 :: device where
  "locked0 = run (init_device 300 True rnd_sample) [EvStart, EvPosition fix0 1000]"

definition vehicle1 :: vehicle where
  "vehicle1 = vrun (init_vehicle 300 True True rnd_sample)
     [VPoll (Some (- 6)) (Some 106) 500, VStart 1000, VPoll (Some (- 6)) (Some 106) 2000]"

definition vehicle_far :: vehicle where
  "vehicle_far = vrun (init_vehicle 300 True True rnd_sample)
     [VPoll (Some (- 12)) (Some (- 170)) 500, VStart 1000,
      VPoll (Some (- 12)) (Some (- 170)) 2000]"

section \<open>Properties\<close>

subsection \<open>Distance\<close>

lemma atan2_nonneg: "0 \<le> y \<Longrightarrow> 0 \<le> atan2 y x"
proof -
  assume y: "0 \<le> y"
  have lb: "- (pi / 2) < arctan (y / x)" by (rule arctan_lbound)
  show ?thesis
  proof (cases "0 < x")
    case True
    with y have "0 \<le> y / x" by simp
    then have "0 \<le> arctan (y / x)" by simp
    with True show ?thesis by (simp add: atan2_def)
  next
    case False
    have "0 \<le> arctan (y / x) + pi" using lb pi_gt_zero by linarith
    with False y show ?thesis
      using pi_gt_zero by (simp add: atan2_def)
  qed
qed

lemma haversine_a_sym: "haversine_a lat1 lon1 lat2 lon2 = haversine_a lat2 lon2 lat1 lon1"
proof -
  have s: "(sin ((u - v) * pi / 180 / 2))\<^sup>2 = (sin ((v - u) * pi / 180 / 2))\<^sup>2" for u v :: real
  proof -
    have "(u - v) * pi / 180 / 2 = - ((v - u) * pi / 180 / 2)" by (simp add: field_simps)
    then show ?thesis by (simp only: sin_minus power2_minus)
  qed
  show ?thesis
    unfolding haversine_a_def Let_def
    by (simp only: s [of lat2 lat1] s [of lon2 lon1] mult.commute [of "cos (lat1 * pi / 180)"])
qed

lemma sin_half_sq: "(sin (t / 2))\<^sup>2 = (1 - cos t) / 2" for t :: real
proof -
  have "cos t = cos (2 * (t / 2))" by simp
  also have "\<dots> = 1 - 2 * (sin (t / 2))\<^sup>2" by (rule cos_double_sin)
  finally show ?thesis by simp
qed

lemma haversine_a_bounds:
  "0 \<le> haversine_a lat1 lon1 lat2 lon2 \<and> haversine_a lat1 lon1 lat2 lon2 \<le> 1"
proof -
  define p where "p = lat1 * pi / 180"
  define q where "q = lat2 * pi / 180"
  define s where "s = (sin ((lon2 - lon1) * pi / 180 / 2))\<^sup>2"
  have s0: "0 \<le> s" and s1: "s \<le> 1"
    unfolding s_def using abs_sin_le_one [of "(lon2 - lon1) * pi / 180 / 2"]
    by (simp_all add: abs_square_le_1)
  have d: "(lat2 - lat1) * pi / 180 = q - p" by (simp add: p_def q_def algebra_simps diff_divide_distrib)
  have h: "(sin ((q - p) / 2))\<^sup>2 = (1 - cos (q - p)) / 2" by (rule sin_half_sq)
  have a: "haversine_a lat1 lon1 lat2 lon2 = (1 - cos (q - p)) / 2 + cos p * cos q * s"
    unfolding haversine_a_def Let_def d h p_def [symmetric] q_def [symmetric] s_def [symmetric] ..
  have c1: "cos (q - p) = cos q * cos p + sin q * sin p" by (rule cos_diff)
  have c2: "cos (q + p) = cos q * cos p - sin q * sin p" by (rule cos_add)
  have e: "(1 - cos (q - p)) / 2 + cos p * cos q * s
           = (1 - s) * ((1 - cos (q - p)) / 2) + s * ((1 + cos (q + p)) / 2)"
    unfolding c1 c2 by (simp add: field_simps)
  have t1: "0 \<le> (1 - cos (q - p)) / 2" using cos_le_one [of "q - p"] by simp
  have "- 1 \<le> cos (q + p)" by (rule cos_ge_minus_one)
  then have "0 \<le> 1 + cos (q + p)" by linarith
  then have t2: "0 \<le> (1 + cos (q + p)) / 2" by simp
  have u1: "(1 - cos (q - p)) / 2 \<le> 1" using cos_ge_minus_one [of "q - p"] by simp
  have u2: "(1 + cos (q + p)) / 2 \<le> 1" using cos_le_one [of "q + p"] by simp
  have n1: "0 \<le> (1 - s) * ((1 - cos (q - p)) / 2)" using s1 t1 by simp
  have n2: "0 \<le> s * ((1 + cos (q + p)) / 2)" using s0 t2 by simp
  have "(1 - s) * ((1 - cos (q - p)) / 2) \<le> (1 - s) * 1"
    using s1 u1 by (intro mult_left_mono) simp_all
  moreover have "s * ((1 + cos (q + p)) / 2) \<le> s * 1"
    using s0 u2 by (intro mult_left_mono) simp_all
  ultimately have "(1 - s) * ((1 - cos (q - p)) / 2) + s * ((1 + cos (q + p)) / 2) \<le> 1"
    by simp
  with n1 n2 show ?thesis unfolding a e by simp
qed

lemma calculateDistance_exact:
  assumes "rnd lat1 lon1 lat2 lon2 = 0"
  shows "\<exists>d. calculateDistance rnd lat1 lon1 lat2 lon2 = Finite d \<and> 0 \<le> d"
proof -
  let ?a = "haversine_a lat1 lon1 lat2 lon2"
  from haversine_a_bounds [of lat1 lon1 lat2 lon2] have b: "0 \<le> ?a" "?a \<le> 1" by simp_all
  have "0 \<le> atan2 (sqrt ?a) (sqrt (1 - ?a))" using b by (intro atan2_nonneg) simp
  then show ?thesis
    using assms b by (simp add: calculateDistance_def Let_def js_sqrt_def EARTH_RADIUS_def)
qed

lemma calculateDistance_exact_sym:
  assumes "rnd lat1 lon1 lat2 lon2 = 0" "rnd lat2 lon2 lat1 lon1 = 0"
  shows "calculateDistance rnd lat1 lon1 lat2 lon2 = calculateDistance rnd lat2 lon2 lat1 lon1"
  using assms unfolding calculateDistance_def
  by (simp only: haversine_a_sym [of lat1 lon1 lat2 lon2])

lemma calculateDistance_same:
  "rnd lat lon lat lon = 0 \<Longrightarrow> calculateDistance rnd lat lon lat lon = Finite 0"
  by (simp add: calculateDistance_def haversine_a_def atan2_def js_sqrt_def)

lemma calculateDistance_half_turn:
  "rnd 0 0 0 180 = 0 \<Longrightarrow> calculateDistance rnd 0 0 0 180 = Finite (EARTH_RADIUS * pi)"
  by (simp add: calculateDistance_def haversine_a_def atan2_def js_sqrt_def)

lemma calculateDistance_above_one:
  "1 < haversine_a lat1 lon1 lat2 lon2 + rnd lat1 lon1 lat2 lon2 \<Longrightarrow>
   calculateDistance rnd lat1 lon1 lat2 lon2 = NaN"
  by (simp add: calculateDistance_def Let_def js_sqrt_def)

lemma haversine_a_antipode: "haversine_a lat lon (- lat) (lon + 180) = 1"
proof -
  have 1: "(- lat - lat) * pi / 180 / 2 = - (lat * pi / 180)" by (simp add: field_simps)
  have 2: "(lon + 180 - lon) * pi / 180 / 2 = pi / 2" by simp
  have 3: "- lat * pi / 180 = - (lat * pi / 180)" by simp
  show ?thesis
    unfolding haversine_a_def Let_def 1 2 3
    by (simp add: power2_eq_square [symmetric])
qed

lemma sample_pair_NaN:
  "calculateDistance rnd_sample (- 12) (- 170) 12 10 = NaN
   \<and> calculateDistance rnd_sample 12 10 (- 12) (- 170) = NaN"
proof -
  have a: "haversine_a (- 12) (- 170) 12 10 = 1"
    using haversine_a_antipode [of "- 12" "- 170"] by simp
  have b: "haversine_a 12 10 (- 12) (- 170) = 1"
    using a by (simp only: haversine_a_sym [of 12 10 "- 12" "- 170"])
  have "calculateDistance rnd_sample (- 12) (- 170) 12 10 = NaN"
    by (rule calculateDistance_above_one) (simp add: a rnd_sample_def)
  moreover have "calculateDistance rnd_sample 12 10 (- 12) (- 170) = NaN"
    by (rule calculateDistance_above_one) (simp add: b rnd_sample_def)
  ultimately show ?thesis by simp
qed

text \<open>
  C6. The distance is to be symmetric, zero from a position to itself, and never
  negative. With exact arithmetic it is (\<open>calculateDistance_exact\<close>,
  \<open>calculateDistance_exact_sym\<close>, \<open>calculateDistance_same\<close>). The code does not clamp
  the haversine term to 1: for the antipodal positions \<open>(-12, -170)\<close> and \<open>(12, 10)\<close>
  the doubles round the term above 1, the square root of \<open>1 - a\<close> is \<^verbatim>\<open>NaN\<close>, and so is
  the distance, in both directions; it is then neither \<open>\<ge> 0\<close> nor equal to the distance
  of the reversed call.
\<close>

theorem calculateDistance_antipode_NaN:
  "calculateDistance rnd_sample (- 12) (- 170) 12 10 = NaN
   \<and> calculateDistance rnd_sample 12 10 (- 12) (- 170) = NaN
   \<and> \<not> js_ge (calculateDistance rnd_sample (- 12) (- 170) 12 10) (Finite 0)
   \<and> \<not> js_eq (calculateDistance rnd_sample (- 12) (- 170) 12 10)
              (calculateDistance rnd_sample 12 10 (- 12) (- 170))"
  using sample_pair_NaN by simp

subsection \<open>Grid spacing\<close>

lemma gridScan_None: "gridScan v gs n = None \<Longrightarrow> i < n \<Longrightarrow> \<not> 4 \<le> v / gs ! i"
proof (induction n)
  case 0
  then show ?case by simp
next
  case (Suc n)
  then show ?case by (cases "i = n") (auto split: if_splits simp: less_Suc_eq)
qed

lemma gridScan_Some:
  "sorted gs \<Longrightarrow> n \<le> length gs \<Longrightarrow> gridScan v gs n = Some s \<Longrightarrow>
   (\<exists>i<n. s = gs ! i) \<and> 4 \<le> v / s \<and> (\<forall>i<n. 4 \<le> v / gs ! i \<longrightarrow> gs ! i \<le> s)"
proof (induction n)
  case 0
  then show ?case by simp
next
  case (Suc n)
  show ?case
  proof (cases "4 \<le> v / gs ! n")
    case True
    with Suc.prems have s: "s = gs ! n" by simp
    have "gs ! i \<le> gs ! n" if "i < Suc n" for i
      using that Suc.prems(1,2) by (intro sorted_nth_mono) auto
    with s True show ?thesis by auto
  next
    case False
    with Suc.prems have "gridScan v gs n = Some s" by simp
    with Suc.IH Suc.prems
    have "(\<exists>i<n. s = gs ! i) \<and> 4 \<le> v / s \<and> (\<forall>i<n. 4 \<le> v / gs ! i \<longrightarrow> gs ! i \<le> s)"
      by simp
    with False show ?thesis by (auto simp: less_Suc_eq)
  qed
qed

lemma GRID_SIZES_sorted: "sorted GRID_SIZES"
  by (simp add: GRID_SIZES_def)

text \<open>
  C2, as amended. In trj.js the spacing is the largest candidate \<open>s\<close> of the list with
  \<open>viewRange / s \<ge> 4\<close>, and the smallest candidate, 1, when there is none; a view range
  of 450 gives 100. In script.js the spacing comes from fixed thresholds: it is a
  candidate of the same list, it leaves more than 4 divisions whenever the view range
  exceeds 10 and is 1 otherwise, and a view range of 450 gives 50.
\<close>

theorem gridSpacing_largest:
  "gridSpacingOf v \<in> set GRID_SIZES
   \<and> ((\<exists>s \<in> set GRID_SIZES. 4 \<le> v / s) \<longrightarrow>
        4 \<le> v / gridSpacingOf v
        \<and> (\<forall>s \<in> set GRID_SIZES. 4 \<le> v / s \<longrightarrow> s \<le> gridSpacingOf v))
   \<and> (\<not> (\<exists>s \<in> set GRID_SIZES. 4 \<le> v / s) \<longrightarrow> gridSpacingOf v = 1)
   \<and> gridSpacingOf 450 = 100
   \<and> gridSpacingOf_vehicle v \<in> set GRID_SIZES
   \<and> (10 < v \<longrightarrow> 4 < v / gridSpacingOf_vehicle v)
   \<and> (v \<le> 10 \<longrightarrow> gridSpacingOf_vehicle v = 1)
   \<and> gridSpacingOf_vehicle 450 = 50"
proof -
  have nth: "\<And>i. i < length GRID_SIZES \<Longrightarrow> GRID_SIZES ! i \<in> set GRID_SIZES" by simp
  have A: "gridSpacingOf v \<in> set GRID_SIZES
   \<and> ((\<exists>s \<in> set GRID_SIZES. 4 \<le> v / s) \<longrightarrow>
        4 \<le> v / gridSpacingOf v
        \<and> (\<forall>s \<in> set GRID_SIZES. 4 \<le> v / s \<longrightarrow> s \<le> gridSpacingOf v))
   \<and> (\<not> (\<exists>s \<in> set GRID_SIZES. 4 \<le> v / s) \<longrightarrow> gridSpacingOf v = 1)"
  proof (cases "gridScan v GRID_SIZES (length GRID_SIZES)")
    case None
    then have no: "\<not> 4 \<le> v / GRID_SIZES ! i" if "i < length GRID_SIZES" for i
      using gridScan_None that by blast
    then have no': "\<not> (\<exists>s \<in> set GRID_SIZES. 4 \<le> v / s)"
      by (metis in_set_conv_nth)
    have "gridSpacingOf v = 1" using None by (simp add: gridSpacingOf_def GRID_SIZES_def)
    with no' show ?thesis by (simp add: GRID_SIZES_def)
  next
    case (Some s)
    from gridScan_Some [OF GRID_SIZES_sorted le_refl Some]
    have 1: "\<exists>i<length GRID_SIZES. s = GRID_SIZES ! i" and 2: "4 \<le> v / s"
      and 3: "\<forall>i<length GRID_SIZES. 4 \<le> v / GRID_SIZES ! i \<longrightarrow> GRID_SIZES ! i \<le> s"
      by blast+
    have g: "gridSpacingOf v = s" using Some by (simp add: gridSpacingOf_def)
    from 1 have m: "s \<in> set GRID_SIZES" using nth by blast
    from 3 have "\<forall>t \<in> set GRID_SIZES. 4 \<le> v / t \<longrightarrow> t \<le> s"
      by (metis in_set_conv_nth)
    with g m 2 show ?thesis by blast
  qed
  have B: "gridSpacingOf 450 = 100"
    by (simp add: gridSpacingOf_def GRID_SIZES_def numeral_eq_Suc)
  have C: "gridSpacingOf_vehicle v \<in> set GRID_SIZES"
    by (simp add: gridSpacingOf_vehicle_def GRID_SIZES_def)
  have D: "10 < v \<longrightarrow> 4 < v / gridSpacingOf_vehicle v"
    by (simp add: gridSpacingOf_vehicle_def)
  have E: "v \<le> 10 \<longrightarrow> gridSpacingOf_vehicle v = 1"
    by (simp add: gridSpacingOf_vehicle_def)
  have F: "gridSpacingOf_vehicle 450 = 50"
    by (simp add: gridSpacingOf_vehicle_def)
  from A B C D E F show ?thesis by blast
qed

theorem gridSpacing_largest_witness:
  "(\<exists>s \<in> set GRID_SIZES. 4 \<le> 450 / s) \<and> 4 \<le> 450 / gridSpacingOf 450
   \<and> 50 \<le> gridSpacingOf 450 \<and> (10::real) < 450 \<and> 4 < 450 / gridSpacingOf_vehicle 450"
proof -
  have h: "\<exists>s \<in> set GRID_SIZES. 4 \<le> 450 / s" by (simp add: GRID_SIZES_def)
  have m: "(50::real) \<in> set GRID_SIZES" by (simp add: GRID_SIZES_def)
  from gridSpacing_largest [of 450] h m show ?thesis by auto
qed

text \<open>
  The claim as stated fails on script.js: at a view range of 450 the candidate 100
  leaves 4.5 divisions, and the function returns 50.
\<close>

theorem gridSpacing_vehicle_counterexample:
  "(100::real) \<in> set GRID_SIZES \<and> (4::real) \<le> 450 / 100 \<and> gridSpacingOf_vehicle 450 = 50
   \<and> gridSpacingOf_vehicle 450 \<noteq> 100"
  by (simp add: gridSpacingOf_vehicle_def GRID_SIZES_def)

subsection \<open>Steps of the device tracker\<close>

lemma handlePosition_reject:
  assumes "path pg \<noteq> []" "originGPS pg \<noteq> None"
    "js_lt (distFromLast pg (latitude pos) (longitude pos)) (Finite MIN_DISTANCE)"
    "now - lastUpdateTime pg < MIN_TIME_BETWEEN"
  shows "handlePosition pos now pg = pg"
  using assms by (auto simp: handlePosition_def Let_def distFromLast_def)

lemma handlePosition_accept:
  assumes "path pg \<noteq> []" "originGPS pg \<noteq> None"
    "\<not> (js_lt (distFromLast pg (latitude pos) (longitude pos)) (Finite MIN_DISTANCE)
        \<and> now - lastUpdateTime pg < MIN_TIME_BETWEEN)"
  shows "length (path (handlePosition pos now pg)) = Suc (length (path pg))
     \<and> pt_lat (last (path (handlePosition pos now pg))) = latitude pos
     \<and> pt_lon (last (path (handlePosition pos now pg))) = longitude pos
     \<and> lastUpdateTime (handlePosition pos now pg) = now
     \<and> totalDistance (handlePosition pos now pg) =
         (if js_ge (distFromLast pg (latitude pos) (longitude pos)) (Finite MIN_DISTANCE)
          then js_add (totalDistance pg) (distFromLast pg (latitude pos) (longitude pos))
          else totalDistance pg)"
  using assms by (auto simp: handlePosition_def Let_def distFromLast_def drawCanvas_def)

lemma handlePosition_first:
  assumes "path pg = []"
  shows "length (path (handlePosition pos now pg)) = 1
     \<and> totalDistance (handlePosition pos now pg) = totalDistance pg
     \<and> originGPS (handlePosition pos now pg) \<noteq> None"
  using assms by (auto simp: handlePosition_def Let_def drawCanvas_def updateStatus_def)

lemma handlePosition_totalDistance:
  "totalDistance (handlePosition pos now pg) =
     (if path pg \<noteq> []
         \<and> js_ge (distFromLast pg (latitude pos) (longitude pos)) (Finite MIN_DISTANCE)
      then js_add (totalDistance pg) (distFromLast pg (latitude pos) (longitude pos))
      else totalDistance pg)"
proof (cases "distFromLast pg (latitude pos) (longitude pos)")
  case (Finite d)
  then show ?thesis
    by (auto simp: handlePosition_def Let_def distFromLast_def drawCanvas_def updateStatus_def)
next
  case NaN
  then show ?thesis
    by (auto simp: handlePosition_def Let_def distFromLast_def drawCanvas_def updateStatus_def)
qed

lemma handlePosition_origin:
  "originGPS (handlePosition pos now pg) =
     (case originGPS pg of None \<Rightarrow> Some (latitude pos, longitude pos) | Some ogn \<Rightarrow> Some ogn)"
  by (auto simp: handlePosition_def Let_def drawCanvas_def updateStatus_def split: option.split)

lemma handlePosition_inv:
  "(originGPS pg = None \<longleftrightarrow> path pg = []) \<Longrightarrow>
   (originGPS (handlePosition pos now pg) = None \<longleftrightarrow> path (handlePosition pos now pg) = [])"
  by (auto simp: handlePosition_def Let_def drawCanvas_def updateStatus_def)

lemma step_origin: "originGPS pg = Some ogn \<Longrightarrow> originGPS (step pg e) = Some ogn"
  by (cases e) (auto simp: handlePosition_origin startTracking_def updateStatus_def
      watchPosition_def handleError_def resizeCanvas_def drawCanvas_def Let_def)

lemma step_path_other:
  "path (startTracking pg) = path pg \<and> originGPS (startTracking pg) = originGPS pg
   \<and> totalDistance (startTracking pg) = totalDistance pg
   \<and> path (handleError c pg) = path pg \<and> originGPS (handleError c pg) = originGPS pg
   \<and> totalDistance (handleError c pg) = totalDistance pg
   \<and> path (resizeCanvas sz pg) = path pg \<and> originGPS (resizeCanvas sz pg) = originGPS pg
   \<and> totalDistance (resizeCanvas sz pg) = totalDistance pg"
  by (simp add: startTracking_def updateStatus_def
      watchPosition_def handleError_def resizeCanvas_def drawCanvas_def Let_def)

lemma step_inv:
  "(originGPS pg = None \<longleftrightarrow> path pg = []) \<Longrightarrow>
   (originGPS (step pg e) = None \<longleftrightarrow> path (step pg e) = [])"
  by (cases e) (simp_all add: handlePosition_inv step_path_other)

text \<open>
  In trj.js the total distance stays a number and never decreases, whatever the
  rounding: a distance that is \<^verbatim>\<open>NaN\<close> fails \<^verbatim>\<open>dist >= MIN_DISTANCE\<close> and is not added.
\<close>

lemma step_odometer:
  assumes "totalDistance pg = Finite t"
  shows "\<exists>t'. totalDistance (step pg e) = Finite t' \<and> t \<le> t'"
proof (cases e)
  case (EvPosition pos now)
  show ?thesis
  proof (cases "distFromLast pg (latitude pos) (longitude pos)")
    case (Finite d)
    with assms EvPosition show ?thesis
      by (simp add: handlePosition_totalDistance MIN_DISTANCE_def)
  next
    case NaN
    with assms EvPosition show ?thesis
      by (simp add: handlePosition_totalDistance)
  qed
qed (simp_all add: step_path_other assms)

lemma run_origin: "originGPS pg = Some ogn \<Longrightarrow> originGPS (run pg es) = Some ogn"
  unfolding run_def by (induction es arbitrary: pg) (simp_all add: step_origin)

lemma run_inv:
  "(originGPS pg = None \<longleftrightarrow> path pg = []) \<Longrightarrow>
   (originGPS (run pg es) = None \<longleftrightarrow> path (run pg es) = [])"
  unfolding run_def
proof (induction es arbitrary: pg)
  case Nil
  then show ?case by simp
next
  case (Cons e es)
  from Cons.prems have "originGPS (step pg e) = None \<longleftrightarrow> path (step pg e) = []"
    by (rule step_inv)
  then show ?case using Cons.IH [of "step pg e"] by simp
qed

lemma run_odometer:
  "totalDistance pg = Finite t \<Longrightarrow> \<exists>t'. totalDistance (run pg es) = Finite t' \<and> t \<le> t'"
  unfolding run_def
proof (induction es arbitrary: pg t)
  case Nil
  then show ?case by simp
next
  case (Cons e es)
  from step_odometer [OF Cons.prems, of e]
  obtain u where u: "totalDistance (step pg e) = Finite u" "t \<le> u" by blast
  from Cons.IH [OF u(1)]
  obtain t' where "totalDistance (foldl step (step pg e) es) = Finite t'" "u \<le> t'" by blast
  with u(2) show ?case by auto
qed

subsection \<open>Steps of the dashboard\<close>

lemma updateGPSPosition_reject:
  assumes "path vg \<noteq> []" "originGPS vg = Some ogn"
    "vehicleLat vg = Some lat" "vehicleLong vg = Some lon" "lat \<noteq> 0" "lon \<noteq> 0"
    "js_lt (distFromLast vg lat lon) (Finite 0.5)"
  shows "updateGPSPosition now vg = (Returned, vg)"
  using assms
  by (simp add: updateGPSPosition_def noFix_def truthy_def Let_def distFromLast_def)

lemma updateGPSPosition_accept:
  assumes "path vg \<noteq> []" "originGPS vg = Some ogn"
    "vehicleLat vg = Some lat" "vehicleLong vg = Some lon" "lat \<noteq> 0" "lon \<noteq> 0"
    "\<not> js_lt (distFromLast vg lat lon) (Finite 0.5)"
  shows "updateGPSPosition now vg \<noteq> (Returned, vg)"
proof (cases "globalCtx vg")
  case True
  with assms have "length (path (snd (updateGPSPosition now vg))) = Suc (length (path vg))"
    by (simp add: updateGPSPosition_def noFix_def truthy_def Let_def distFromLast_def
        gpsToLocalXY_def drawGPSCanvas_def split: prod.split)
  then show ?thesis by auto
next
  case False
  with assms have "fst (updateGPSPosition now vg) = Thrown ReferenceError"
    by (simp add: updateGPSPosition_def noFix_def truthy_def Let_def distFromLast_def
        gpsToLocalXY_def split: prod.split)
  then show ?thesis by auto
qed

lemma updateGPSPosition_totalDistance:
  assumes "vehicleLat vg = Some lat" "vehicleLong vg = Some lon" "lat \<noteq> 0" "lon \<noteq> 0"
  shows "totalDistance (snd (updateGPSPosition now vg)) =
     (if path vg \<noteq> [] \<and> \<not> js_lt (distFromLast vg lat lon) (Finite 0.5)
      then js_add (totalDistance vg) (distFromLast vg lat lon) else totalDistance vg)"
  using assms
  by (auto simp: updateGPSPosition_def noFix_def truthy_def Let_def distFromLast_def
      drawGPSCanvas_def split: sum.split)

lemma updateGPSPosition_origin:
  "originGPS vg = Some ogn \<Longrightarrow> originGPS (snd (updateGPSPosition now vg)) = Some ogn"
  by (auto simp: updateGPSPosition_def Let_def drawGPSCanvas_def
      split: sum.split option.split)

lemma updateGPSPosition_inv:
  "(path vg \<noteq> [] \<longrightarrow> originGPS vg \<noteq> None) \<Longrightarrow>
   (path (snd (updateGPSPosition now vg)) \<noteq> [] \<longrightarrow>
    originGPS (snd (updateGPSPosition now vg)) \<noteq> None)"
  by (auto simp: updateGPSPosition_def Let_def drawGPSCanvas_def
      split: sum.split option.split if_splits)

lemma updateGPSPosition_isTracking:
  "isTracking (snd (updateGPSPosition now vg)) = isTracking vg"
  by (auto simp: updateGPSPosition_def Let_def drawGPSCanvas_def
      split: sum.split option.split)

lemma updateGPSFromVehicle_inv:
  "originKept vg \<Longrightarrow> originKept (snd (updateGPSFromVehicle now vg))"
  unfolding originKept_def
  using updateGPSPosition_inv [of vg now] by (simp add: updateGPSFromVehicle_def)

lemma updateGPSFromVehicle_origin:
  "originGPS vg = Some ogn \<Longrightarrow> originGPS (snd (updateGPSFromVehicle now vg)) = Some ogn"
  using updateGPSPosition_origin [of vg ogn now] by (simp add: updateGPSFromVehicle_def)

lemma updateGPSFromVehicle_isTracking:
  "isTracking (snd (updateGPSFromVehicle now vg)) = isTracking vg"
  using updateGPSPosition_isTracking [of now vg] by (simp add: updateGPSFromVehicle_def)

lemma updateGPSPosition_offAxes:
  "offAxes vg \<Longrightarrow> offAxes (snd (updateGPSPosition now vg))"
  by (auto simp: offAxes_def updateGPSPosition_def Let_def drawGPSCanvas_def noFix_def
      truthy_def split: sum.split option.split if_splits)

lemma updateGPSFromVehicle_offAxes:
  "offAxes vg \<Longrightarrow> offAxes (snd (updateGPSFromVehicle now vg))"
  using updateGPSPosition_offAxes [of vg now] by (simp add: updateGPSFromVehicle_def)

lemma startGPSTracking_frame:
  "path (startGPSTracking now vg) = path vg
   \<and> totalDistance (startGPSTracking now vg) = totalDistance vg"
  by (simp add: startGPSTracking_def Let_def watchPosition_def split: option.split)

lemma startGPSTracking_guard: "isTracking vg \<Longrightarrow> startGPSTracking now vg = vg"
  by (simp add: startGPSTracking_def)

lemma startGPSTracking_inv: "originKept vg \<Longrightarrow> originKept (startGPSTracking now vg)"
  by (auto simp: originKept_def startGPSTracking_def Let_def watchPosition_def
      split: option.split if_splits)

lemma stopGPSTracking_frame:
  "path (stopGPSTracking vg) = path vg \<and> originGPS (stopGPSTracking vg) = originGPS vg
   \<and> totalDistance (stopGPSTracking vg) = totalDistance vg"
  by (simp add: stopGPSTracking_def Let_def split: option.split)

lemma vstep_inv: "originKept vg \<Longrightarrow> originKept (vstep vg e)"
proof (cases e)
  case (VPoll lat lon now)
  assume "originKept vg"
  then have "originKept (vg\<lparr> vehicleLat := lat, vehicleLong := lon \<rparr>)"
    by (simp add: originKept_def)
  then show ?thesis using VPoll by (simp add: updateGPSFromVehicle_inv)
next
  case (VStart now)
  assume "originKept vg"
  then show ?thesis using VStart by (simp add: startGPSTracking_inv)
next
  case VStop
  assume "originKept vg"
  then show ?thesis using VStop by (simp add: originKept_def stopGPSTracking_frame)
next
  case (VClear c)
  assume "originKept vg"
  then show ?thesis using VClear
    by (simp add: originKept_def clearGPSPath_def drawGPSCanvas_def Let_def)
next
  case (VBrowserFix pos)
  assume "originKept vg"
  then show ?thesis using VBrowserFix by (simp add: originKept_def)
qed

lemma vstep_offAxes: "offAxes vg \<Longrightarrow> offAxes (vstep vg e)"
proof (cases e)
  case (VPoll lat lon now)
  assume "offAxes vg"
  then have "offAxes (vg\<lparr> vehicleLat := lat, vehicleLong := lon \<rparr>)"
    by (simp add: offAxes_def)
  then show ?thesis using VPoll by (simp add: updateGPSFromVehicle_offAxes)
next
  case (VStart now)
  assume "offAxes vg"
  then show ?thesis using VStart by (simp add: offAxes_def startGPSTracking_frame)
next
  case VStop
  assume "offAxes vg"
  then show ?thesis using VStop by (simp add: offAxes_def stopGPSTracking_frame)
next
  case (VClear c)
  assume "offAxes vg"
  then show ?thesis using VClear
    by (simp add: offAxes_def clearGPSPath_def drawGPSCanvas_def Let_def)
next
  case (VBrowserFix pos)
  assume "offAxes vg"
  then show ?thesis using VBrowserFix by (simp add: offAxes_def)
qed

text \<open>
  Where the origin of the dashboard changes: a confirmed clear removes it, and a start
  while tracking is not active sets it anew. Every other event keeps it.
\<close>

lemma vstep_origin:
  assumes "originGPS vg = Some ogn" "e \<noteq> VClear True"
    "isTracking vg \<or> (\<forall>now. e \<noteq> VStart now)"
  shows "originGPS (vstep vg e) = Some ogn"
proof (cases e)
  case (VPoll lat lon now)
  from assms(1) have "originGPS (vg\<lparr> vehicleLat := lat, vehicleLong := lon \<rparr>) = Some ogn"
    by simp
  then show ?thesis using VPoll by (simp add: updateGPSFromVehicle_origin)
next
  case (VStart now)
  with assms(3) have "isTracking vg" by simp
  then show ?thesis using VStart assms(1) by (simp add: startGPSTracking_guard)
next
  case VStop
  then show ?thesis using assms(1) by (simp add: stopGPSTracking_frame)
next
  case (VClear c)
  with assms(2) have "\<not> c" by simp
  then show ?thesis using VClear assms(1) by (simp add: clearGPSPath_def)
next
  case (VBrowserFix pos)
  then show ?thesis using assms(1) by simp
qed

lemma vstep_isTracking:
  assumes "isTracking vg" "e \<noteq> VClear True" "e \<noteq> VStop"
  shows "isTracking (vstep vg e)"
proof (cases e)
  case (VPoll lat lon now)
  then show ?thesis using assms(1) by (simp add: updateGPSFromVehicle_isTracking)
next
  case (VStart now)
  then show ?thesis using assms(1) by (simp add: startGPSTracking_guard)
next
  case VStop
  with assms(3) show ?thesis by simp
next
  case (VClear c)
  with assms(2) have "\<not> c" by simp
  then show ?thesis using VClear assms(1) by (simp add: clearGPSPath_def)
next
  case (VBrowserFix pos)
  then show ?thesis using assms(1) by simp
qed

lemma vrun_inv: "originKept vg \<Longrightarrow> originKept (vrun vg es)"
  unfolding vrun_def by (induction es arbitrary: vg) (simp_all add: vstep_inv)

lemma vrun_offAxes: "offAxes vg \<Longrightarrow> offAxes (vrun vg es)"
  unfolding vrun_def by (induction es arbitrary: vg) (simp_all add: vstep_offAxes)

lemma vrun_origin:
  "isTracking vg \<Longrightarrow> originGPS vg = Some ogn \<Longrightarrow> VStop \<notin> set es \<Longrightarrow>
   VClear True \<notin> set es \<Longrightarrow>
   isTracking (vrun vg es) \<and> originGPS (vrun vg es) = Some ogn"
  unfolding vrun_def
proof (induction es arbitrary: vg)
  case Nil
  then show ?case by simp
next
  case (Cons e es)
  then have e: "e \<noteq> VClear True" "e \<noteq> VStop" and r: "VStop \<notin> set es" "VClear True \<notin> set es"
    by auto
  have 1: "isTracking (vstep vg e)" using Cons.prems(1) e by (rule vstep_isTracking)
  have 2: "originGPS (vstep vg e) = Some ogn"
    using Cons.prems(2) e(1) Cons.prems(1) by (intro vstep_origin) simp_all
  from Cons.IH [OF 1 2 r] show ?case by simp
qed

subsection \<open>The sample states, evaluated\<close>

lemma locked0_eq:
  "locked0 = \<lparr> watchId = Some 1, originGPS = Some (0, 0),
      path = [\<lparr> pt_x = 0, pt_y = 0, pt_lat = 0, pt_lon = 0, pt_timestamp = 1000,
                pt_accuracy = 5, pt_speed = 0 \<rparr>],
      totalDistance = Finite 0, startTime = Some 1000, lastUpdateTime = 1000,
      pixelsPerMeter = 3, canvasWidth = 300, geolocation = True, watches = [1],
      watchCount = 1, timers = [(CB_startTracking, 500)], redraws = 2,
      rounding = rnd_sample, status = Some (''locked'', ''Tracking'') \<rparr>"
  by (simp add: locked0_def run_def init_device_def startTracking_def updateStatus_def
      watchPosition_def handlePosition_def fix0_def gpsToXY_def drawCanvas_def Let_def SCALE_def)

lemma vehicle1_eq:
  "vehicle1 = \<lparr> watchId = Some 1, originGPS = Some (- 6, 106),
      path = [\<lparr> pt_x = 0, pt_y = 0, pt_lat = - 6, pt_lon = 106, pt_timestamp = 2000,
                pt_accuracy = 1, pt_speed = 0 \<rparr>],
      totalDistance = Finite 0, startTime = Some 1000, lastUpdateTime = 0,
      pixelsPerMeter = 3, canvasWidth = 300, geolocation = True, watches = [1],
      watchCount = 1, timers = [], redraws = 2, rounding = rnd_sample,
      isTracking = True, retryCount = 0, vehicleLat = Some (- 6), vehicleLong = Some 106,
      globalCtx = True \<rparr>"
  by (simp add: vehicle1_def vrun_def init_vehicle_def updateGPSFromVehicle_def
      updateGPSPosition_def startGPSTracking_def noFix_def truthy_def watchPosition_def
      gpsToLocalXY_def drawGPSCanvas_def Let_def)

lemma vehicle_far_eq:
  "vehicle_far = \<lparr> watchId = Some 1, originGPS = Some (- 12, - 170),
      path = [\<lparr> pt_x = 0, pt_y = 0, pt_lat = - 12, pt_lon = - 170, pt_timestamp = 2000,
                pt_accuracy = 1, pt_speed = 0 \<rparr>],
      totalDistance = Finite 0, startTime = Some 1000, lastUpdateTime = 0,
      pixelsPerMeter = 3, canvasWidth = 300, geolocation = True, watches = [1],
      watchCount = 1, timers = [], redraws = 2, rounding = rnd_sample,
      isTracking = True, retryCount = 0, vehicleLat = Some (- 12),
      vehicleLong = Some (- 170), globalCtx = True \<rparr>"
  by (simp add: vehicle_far_def vrun_def init_vehicle_def updateGPSFromVehicle_def
      updateGPSPosition_def startGPSTracking_def noFix_def truthy_def watchPosition_def
      gpsToLocalXY_def drawGPSCanvas_def Let_def)

lemma locked0_dists:
  "distFromLast locked0 (latitude fix0) (longitude fix0) = Finite 0
   \<and> distFromLast locked0 (latitude fix180) (longitude fix180) = Finite (EARTH_RADIUS * pi)"
proof -
  have "calculateDistance rnd_sample 0 0 0 0 = Finite 0"
    by (rule calculateDistance_same) (simp add: rnd_sample_def)
  moreover have "calculateDistance rnd_sample 0 0 0 180 = Finite (EARTH_RADIUS * pi)"
    by (rule calculateDistance_half_turn) (simp add: rnd_sample_def)
  ultimately show ?thesis
    by (simp add: distFromLast_def locked0_eq fix0_def fix180_def)
qed

lemma vehicle1_dist: "distFromLast vehicle1 (- 6) 106 = Finite 0"
proof -
  have "calculateDistance rnd_sample (- 6) 106 (- 6) 106 = Finite 0"
    by (rule calculateDistance_same) (simp add: rnd_sample_def)
  then show ?thesis by (simp add: distFromLast_def vehicle1_eq)
qed

lemma vehicle_far_dist: "distFromLast vehicle_far 12 10 = NaN"
  using sample_pair_NaN by (simp add: distFromLast_def vehicle_far_eq)

subsection \<open>The fix filter\<close>

text \<open>
  C1, as amended. In trj.js, for a fix that arrives when a point is recorded, with \<open>d\<close>
  the distance that \<^verbatim>\<open>calculateDistance\<close> returns from the last recorded point, a
  number, and \<open>t\<close> the time since the last update: the fix is rejected, the state staying
  as it is, if and only if \<open>d < MIN_DISTANCE\<close> and \<open>t < MIN_TIME_BETWEEN\<close>; an accepted
  fix is recorded as a point, sets the time of the last update, and adds \<open>d\<close> to the
  total distance if \<open>d \<ge> MIN_DISTANCE\<close> and nothing otherwise. In script.js there is no
  time threshold: a fix whose distance \<open>d\<close> is a number is rejected if and only if
  \<open>d < 0.5\<close>, and every other such fix adds \<open>d\<close> to the total distance.
\<close>

theorem fix_filter:
  "(path pg \<noteq> [] \<and> originGPS pg \<noteq> None
      \<and> distFromLast pg (latitude pos) (longitude pos) = Finite d \<longrightarrow>
      (handlePosition pos now pg = pg \<longleftrightarrow>
         d < MIN_DISTANCE \<and> now - lastUpdateTime pg < MIN_TIME_BETWEEN)
      \<and> (\<not> (d < MIN_DISTANCE \<and> now - lastUpdateTime pg < MIN_TIME_BETWEEN) \<longrightarrow>
           length (path (handlePosition pos now pg)) = Suc (length (path pg))
           \<and> pt_lat (last (path (handlePosition pos now pg))) = latitude pos
           \<and> pt_lon (last (path (handlePosition pos now pg))) = longitude pos
           \<and> lastUpdateTime (handlePosition pos now pg) = now
           \<and> totalDistance (handlePosition pos now pg) =
               (if MIN_DISTANCE \<le> d then js_add (totalDistance pg) (Finite d)
                else totalDistance pg)))
   \<and> (path vg \<noteq> [] \<and> originGPS vg \<noteq> None
        \<and> vehicleLat vg = Some lat \<and> vehicleLong vg = Some lon \<and> lat \<noteq> 0 \<and> lon \<noteq> 0
        \<and> distFromLast vg lat lon = Finite dv \<longrightarrow>
      (updateGPSPosition vnow vg = (Returned, vg) \<longleftrightarrow> dv < 0.5)
      \<and> (\<not> dv < 0.5 \<longrightarrow>
           totalDistance (snd (updateGPSPosition vnow vg))
             = js_add (totalDistance vg) (Finite dv)))"
proof -
  have A: "(handlePosition pos now pg = pg \<longleftrightarrow>
         d < MIN_DISTANCE \<and> now - lastUpdateTime pg < MIN_TIME_BETWEEN)
      \<and> (\<not> (d < MIN_DISTANCE \<and> now - lastUpdateTime pg < MIN_TIME_BETWEEN) \<longrightarrow>
           length (path (handlePosition pos now pg)) = Suc (length (path pg))
           \<and> pt_lat (last (path (handlePosition pos now pg))) = latitude pos
           \<and> pt_lon (last (path (handlePosition pos now pg))) = longitude pos
           \<and> lastUpdateTime (handlePosition pos now pg) = now
           \<and> totalDistance (handlePosition pos now pg) =
               (if MIN_DISTANCE \<le> d then js_add (totalDistance pg) (Finite d)
                else totalDistance pg))"
    if h: "path pg \<noteq> []" "originGPS pg \<noteq> None"
      and d: "distFromLast pg (latitude pos) (longitude pos) = Finite d"
  proof (cases "d < MIN_DISTANCE \<and> now - lastUpdateTime pg < MIN_TIME_BETWEEN")
    case True
    then have "handlePosition pos now pg = pg"
      using handlePosition_reject [OF h, of pos now] d by simp
    with True show ?thesis by simp
  next
    case False
    then have n: "\<not> (js_lt (distFromLast pg (latitude pos) (longitude pos)) (Finite MIN_DISTANCE)
        \<and> now - lastUpdateTime pg < MIN_TIME_BETWEEN)"
      using d by simp
    from handlePosition_accept [OF h n]
    have acc: "length (path (handlePosition pos now pg)) = Suc (length (path pg))
     \<and> pt_lat (last (path (handlePosition pos now pg))) = latitude pos
     \<and> pt_lon (last (path (handlePosition pos now pg))) = longitude pos
     \<and> lastUpdateTime (handlePosition pos now pg) = now
     \<and> totalDistance (handlePosition pos now pg) =
         (if js_ge (distFromLast pg (latitude pos) (longitude pos)) (Finite MIN_DISTANCE)
          then js_add (totalDistance pg) (distFromLast pg (latitude pos) (longitude pos))
          else totalDistance pg)" .
    then have "length (path (handlePosition pos now pg)) \<noteq> length (path pg)" by simp
    then have "handlePosition pos now pg \<noteq> pg" by auto
    with False acc d show ?thesis by simp
  qed
  have B: "(updateGPSPosition vnow vg = (Returned, vg) \<longleftrightarrow> dv < 0.5)
      \<and> (\<not> dv < 0.5 \<longrightarrow>
           totalDistance (snd (updateGPSPosition vnow vg))
             = js_add (totalDistance vg) (Finite dv))"
    if h: "path vg \<noteq> []" "originGPS vg \<noteq> None"
      and v: "vehicleLat vg = Some lat" "vehicleLong vg = Some lon" "lat \<noteq> 0" "lon \<noteq> 0"
      and d: "distFromLast vg lat lon = Finite dv"
  proof -
    from h obtain ogn where o: "originGPS vg = Some ogn" by auto
    show ?thesis
    proof (cases "dv < 0.5")
      case True
      then have "js_lt (distFromLast vg lat lon) (Finite 0.5)" using d by simp
      from updateGPSPosition_reject [OF h(1) o v this] True show ?thesis by simp
    next
      case False
      then have n: "\<not> js_lt (distFromLast vg lat lon) (Finite 0.5)" using d by simp
      from updateGPSPosition_accept [OF h(1) o v n]
      have "updateGPSPosition vnow vg \<noteq> (Returned, vg)" .
      moreover have "totalDistance (snd (updateGPSPosition vnow vg))
             = js_add (totalDistance vg) (Finite dv)"
        using h(1) n d by (simp add: updateGPSPosition_totalDistance [OF v])
      ultimately show ?thesis using False by simp
    qed
  qed
  show ?thesis using A B by blast
qed

theorem fix_filter_witness:
  "path locked0 \<noteq> [] \<and> originGPS locked0 \<noteq> None
   \<and> distFromLast locked0 (latitude fix0) (longitude fix0) = Finite 0
   \<and> handlePosition fix0 1500 locked0 = locked0
   \<and> length (path (handlePosition fix0 2500 locked0)) = 2
   \<and> totalDistance (handlePosition fix0 2500 locked0) = Finite 0
   \<and> totalDistance (handlePosition fix180 1200 locked0) = Finite (EARTH_RADIUS * pi)
   \<and> path vehicle1 \<noteq> [] \<and> originGPS vehicle1 \<noteq> None
   \<and> distFromLast vehicle1 (- 6) 106 = Finite 0
   \<and> updateGPSPosition 9000 vehicle1 = (Returned, vehicle1)"
proof -
  have big: "MIN_DISTANCE \<le> EARTH_RADIUS * pi"
    using pi_ge_two by (simp add: MIN_DISTANCE_def EARTH_RADIUS_def)
  have p: "path locked0 \<noteq> [] \<and> originGPS locked0 \<noteq> None
           \<and> lastUpdateTime locked0 = 1000 \<and> totalDistance locked0 = Finite 0
           \<and> length (path locked0) = 1"
    by (simp add: locked0_eq)
  have q: "path vehicle1 \<noteq> [] \<and> originGPS vehicle1 \<noteq> None
           \<and> vehicleLat vehicle1 = Some (- 6) \<and> vehicleLong vehicle1 = Some 106"
    by (simp add: vehicle1_eq)
  show ?thesis
    using fix_filter [of locked0 fix0 0 1500 vehicle1 "- 6" 106 0 9000]
      fix_filter [of locked0 fix0 0 2500 vehicle1 "- 6" 106 0 9000]
      fix_filter [of locked0 fix180 "EARTH_RADIUS * pi" 1200 vehicle1 "- 6" 106 0 9000]
      locked0_dists vehicle1_dist p q big
    by (simp add: MIN_DISTANCE_def MIN_TIME_BETWEEN_def)
qed

text \<open>
  The claim as stated fails on script.js: a fix at the place of the last point, 7
  seconds after it, is rejected, though the time threshold has passed.
\<close>

theorem vehicle_filter_counterexample:
  "path vehicle1 \<noteq> []
   \<and> distFromLast vehicle1 (- 6) 106 = Finite 0 \<and> (0::real) < MIN_DISTANCE
   \<and> \<not> (9000 - pt_timestamp (last (path vehicle1)) < MIN_TIME_BETWEEN)
   \<and> \<not> (9000 - lastUpdateTime vehicle1 < MIN_TIME_BETWEEN)
   \<and> vehicleLat vehicle1 = Some (- 6) \<and> vehicleLong vehicle1 = Some 106
   \<and> updateGPSPosition 9000 vehicle1 = (Returned, vehicle1)"
proof -
  have r: "updateGPSPosition 9000 vehicle1 = (Returned, vehicle1)"
    by (rule updateGPSPosition_reject [where lat = "- 6" and lon = 106 and ogn = "(- 6, 106)"])
       (simp_all add: vehicle1_dist, simp_all add: vehicle1_eq)
  show ?thesis using vehicle1_dist r
    by (simp add: MIN_DISTANCE_def MIN_TIME_BETWEEN_def, simp add: vehicle1_eq)
qed

subsection \<open>Origin and points\<close>

text \<open>
  C3, as amended. In trj.js, in every state reached from the initial one the origin is
  set if and only if the list of points is not empty, and no event changes an origin
  that is set. In script.js the origin is set when tracking starts, before any point is
  recorded; in every state reached from the initial one a list of points that is not
  empty has an origin; an origin that is set is changed only by a confirmed clear, which
  removes it, and by a start while tracking is not active, which sets it anew and keeps
  the points; so it stays as it is from the start of tracking to the next stop or
  confirmed clear.
\<close>

theorem origin_invariant:
  "(originGPS (run (init_device w geo rnd) es) = None
      \<longleftrightarrow> path (run (init_device w geo rnd) es) = [])
   \<and> (originGPS pg = Some ogn \<longrightarrow> originGPS (run pg es') = Some ogn)
   \<and> (path (vrun (init_vehicle w geo gctx rnd) ves) \<noteq> [] \<longrightarrow>
        originGPS (vrun (init_vehicle w geo gctx rnd) ves) \<noteq> None)
   \<and> (originGPS vg = Some vogn \<and> e \<noteq> VClear True
        \<and> (isTracking vg \<or> (\<forall>t. e \<noteq> VStart t)) \<longrightarrow>
        originGPS (vstep vg e) = Some vogn)
   \<and> (isTracking vg \<and> originGPS vg = Some vogn \<and> VStop \<notin> set ves'
        \<and> VClear True \<notin> set ves' \<longrightarrow>
        isTracking (vrun vg ves') \<and> originGPS (vrun vg ves') = Some vogn)"
proof -
  have i: "originGPS (init_device w geo rnd) = None \<longleftrightarrow> path (init_device w geo rnd) = []"
    by (simp add: init_device_def)
  have A: "originGPS (run (init_device w geo rnd) es) = None
           \<longleftrightarrow> path (run (init_device w geo rnd) es) = []"
    using i by (rule run_inv)
  have "originKept (init_vehicle w geo gctx rnd)"
    by (simp add: originKept_def init_vehicle_def)
  then have "originKept (vrun (init_vehicle w geo gctx rnd) ves)" by (rule vrun_inv)
  then have C: "path (vrun (init_vehicle w geo gctx rnd) ves) \<noteq> [] \<longrightarrow>
        originGPS (vrun (init_vehicle w geo gctx rnd) ves) \<noteq> None"
    by (simp add: originKept_def)
  have D: "originGPS vg = Some vogn \<and> e \<noteq> VClear True
        \<and> (isTracking vg \<or> (\<forall>t. e \<noteq> VStart t)) \<longrightarrow>
        originGPS (vstep vg e) = Some vogn"
    using vstep_origin [of vg vogn e] by blast
  have E: "isTracking vg \<and> originGPS vg = Some vogn \<and> VStop \<notin> set ves'
        \<and> VClear True \<notin> set ves' \<longrightarrow>
        isTracking (vrun vg ves') \<and> originGPS (vrun vg ves') = Some vogn"
    using vrun_origin [of vg vogn ves'] by blast
  show ?thesis
    using A C D E run_origin [of pg ogn es'] by blast
qed

theorem origin_invariant_witness:
  "originGPS locked0 = Some (0, 0) \<and> path locked0 \<noteq> []
   \<and> originGPS (run locked0 [EvPosition fix180 5000, EvStart]) = Some (0, 0)
   \<and> path vehicle1 \<noteq> [] \<and> originGPS vehicle1 = Some (- 6, 106) \<and> isTracking vehicle1
   \<and> originGPS (vstep vehicle1 VStop) = Some (- 6, 106)
   \<and> originGPS (vrun vehicle1 [VPoll (Some 5) (Some 7) 3000, VStart 4000, VClear False])
       = Some (- 6, 106)"
proof -
  have p: "originGPS locked0 = Some (0, 0) \<and> path locked0 \<noteq> []"
    by (simp add: locked0_eq)
  have q: "path vehicle1 \<noteq> [] \<and> originGPS vehicle1 = Some (- 6, 106) \<and> isTracking vehicle1"
    by (simp add: vehicle1_eq)
  show ?thesis
    using p q
      origin_invariant [of 300 True rnd_sample "[EvStart, EvPosition fix0 1000]" locked0 "(0, 0)"
        "[EvPosition fix180 5000, EvStart]" True
        "[VPoll (Some (- 6)) (Some 106) 500, VStart 1000, VPoll (Some (- 6)) (Some 106) 2000]"
        vehicle1 "(- 6, 106)" VStop
        "[VPoll (Some 5) (Some 7) 3000, VStart 4000, VClear False]"]
    by simp
qed

text \<open>
  The claim as stated fails on script.js. After the vehicle reported a position and
  tracking was started, the origin is set and no point is recorded. And after a stop, a
  start at another position of the vehicle replaces the origin while the recorded point
  stays.
\<close>

theorem origin_before_points_counterexample:
  "originGPS (vrun (init_vehicle 300 True True rnd_sample)
       [VPoll (Some (- 6)) (Some 106) 500, VStart 1000]) = Some (- 6, 106)
   \<and> path (vrun (init_vehicle 300 True True rnd_sample)
       [VPoll (Some (- 6)) (Some 106) 500, VStart 1000]) = []
   \<and> originGPS vehicle1 = Some (- 6, 106)
   \<and> originGPS (vrun vehicle1 [VStop, VPoll (Some 5) (Some 7) 3000, VStart 4000]) = Some (5, 7)
   \<and> path (vrun vehicle1 [VStop, VPoll (Some 5) (Some 7) 3000, VStart 4000]) = path vehicle1
   \<and> path vehicle1 \<noteq> []"
  by (simp add: vehicle1_eq vrun_def init_vehicle_def updateGPSFromVehicle_def
      startGPSTracking_def stopGPSTracking_def noFix_def truthy_def watchPosition_def Let_def)

subsection \<open>The total distance\<close>

lemma updateGPSFromVehicle_NaN:
  "totalDistance vg = NaN \<Longrightarrow> totalDistance (snd (updateGPSFromVehicle now vg)) = NaN"
proof (cases "noFix (vehicleLat vg) (vehicleLong vg)")
  case True
  assume "totalDistance vg = NaN"
  with True show ?thesis by (simp add: updateGPSFromVehicle_def)
next
  case False
  assume n: "totalDistance vg = NaN"
  from False obtain lat lon where v: "vehicleLat vg = Some lat" "vehicleLong vg = Some lon"
    "lat \<noteq> 0" "lon \<noteq> 0"
    by (auto simp: noFix_def truthy_def split: option.splits)
  show ?thesis
    using n by (simp add: updateGPSFromVehicle_def updateGPSPosition_totalDistance [OF v])
qed

text \<open>
  C4. The total distance is to be non-decreasing and to grow only by the distance of
  an accepted fix from the last recorded point. trj.js keeps to that
  (\<open>handlePosition_totalDistance\<close>, \<open>run_odometer\<close>): it adds the distance only after
  \<^verbatim>\<open>dist >= MIN_DISTANCE\<close>, which a \<^verbatim>\<open>NaN\<close> fails. script.js tests \<^verbatim>\<open>dist < 0.5\<close>
  only, which a \<^verbatim>\<open>NaN\<close> fails too, and then adds: with the last point at
  \<open>(-12, -170)\<close> and the vehicle at \<open>(12, 10)\<close> the total distance becomes \<^verbatim>\<open>NaN\<close>, is
  no longer \<open>\<ge>\<close> its former value, and stays \<^verbatim>\<open>NaN\<close> at every later position.
\<close>

theorem odometer_NaN:
  "totalDistance vehicle_far = Finite 0
   \<and> distFromLast vehicle_far 12 10 = NaN
   \<and> totalDistance (vstep vehicle_far (VPoll (Some 12) (Some 10) 4000)) = NaN
   \<and> \<not> js_ge (totalDistance (vstep vehicle_far (VPoll (Some 12) (Some 10) 4000)))
            (totalDistance vehicle_far)
   \<and> totalDistance (vstep (vstep vehicle_far (VPoll (Some 12) (Some 10) 4000))
                       (VPoll lat lon now)) = NaN"
proof -
  let ?vg = "vehicle_far\<lparr> vehicleLat := Some 12, vehicleLong := Some 10 \<rparr>"
  have d: "distFromLast ?vg 12 10 = NaN"
    using vehicle_far_dist by (simp add: distFromLast_def)
  have t: "isTracking ?vg \<and> path ?vg \<noteq> [] \<and> totalDistance ?vg = Finite 0
           \<and> \<not> noFix (vehicleLat ?vg) (vehicleLong ?vg)"
    by (simp add: vehicle_far_eq noFix_def truthy_def)
  have "totalDistance (snd (updateGPSPosition 4000 ?vg)) = NaN"
    using t d by (simp add: updateGPSPosition_totalDistance [of ?vg 12 10])
  with t have n: "totalDistance (vstep vehicle_far (VPoll (Some 12) (Some 10) 4000)) = NaN"
    by (simp add: updateGPSFromVehicle_def)
  have s: "totalDistance (vstep (vstep vehicle_far (VPoll (Some 12) (Some 10) 4000))
                       (VPoll lat lon now)) = NaN"
    using n by (simp add: updateGPSFromVehicle_NaN)
  have z: "totalDistance vehicle_far = Finite 0" by (simp add: vehicle_far_eq)
  show ?thesis using n s z vehicle_far_dist by simp
qed

subsection \<open>Projection\<close>

lemma gpsToXY_origin:
  "gpsToXY None lat lon = (0, 0) \<and> gpsToXY (Some (lat, lon)) lat lon = (0, 0)"
  by (simp add: gpsToXY_def)

lemma gpsToLocalXY_origin:
  "(originGPS vg = None \<longrightarrow> gpsToLocalXY vg lat lon = Inr (0, 0))
   \<and> (originGPS vg = Some (lat, lon) \<and> globalCtx vg \<longrightarrow> gpsToLocalXY vg lat lon = Inr (0, 0))
   \<and> (originGPS vg \<noteq> None \<and> \<not> globalCtx vg \<longrightarrow> gpsToLocalXY vg lat lon = Inl ReferenceError)"
  by (auto simp: gpsToLocalXY_def)

text \<open>
  C5. Without an origin the projection is \<open>(0, 0)\<close>, and a fix at the origin projects to
  \<open>(0, 0)\<close>: trj.js does so (\<open>gpsToXY_origin\<close>). In script.js the function, once the
  origin is set, reaches two statements that draw on \<^verbatim>\<open>ctx\<close> and \<^verbatim>\<open>canvas\<close>, which
  it does not declare; on a page that does not bind them the call ends in a
  ReferenceError before it returns, here for the fix at the origin.
\<close>

theorem gpsToLocalXY_unbound_ctx:
  "gpsToLocalXY ((init_vehicle 300 True False rnd_sample)\<lparr> originGPS := Some (- 6, 106) \<rparr>)
     (- 6) 106
     = Inl ReferenceError"
  by (simp add: gpsToLocalXY_def init_vehicle_def)

subsection \<open>Starting\<close>

text \<open>
  C7. A start while the tracker is searching or locked is to change nothing. script.js
  keeps to that (\<open>startGPSTracking_guard\<close>). trj.js \<^verbatim>\<open>startTracking\<close> has no guard and
  never clears a watch: the retry that a timeout schedules calls it while the first
  watch is still subscribed, here in the locked state, and it subscribes a second time
  and puts the status back to Searching, where it stays when the next fix arrives.
\<close>

theorem startTracking_second_watch:
  "watches locked0 = [1] \<and> status locked0 = Some (''locked'', ''Tracking'')
   \<and> timers (handleError TIMEOUT locked0)
       = timers locked0 @ [(CB_startTracking, AUTO_RETRY_DELAY)]
   \<and> watches (run locked0 [EvError TIMEOUT, EvStart]) = [1, 2]
   \<and> watchId (run locked0 [EvError TIMEOUT, EvStart]) = Some 2
   \<and> status (run locked0 [EvError TIMEOUT, EvStart]) = Some (''searching'', ''Searching'')
   \<and> status (run locked0 [EvError TIMEOUT, EvStart, EvPosition fix0 9000])
       = Some (''searching'', ''Searching'')"
proof -
  have d: "calculateDistance rnd_sample 0 0 0 0 = Finite 0"
    by (rule calculateDistance_same) (simp add: rnd_sample_def)
  show ?thesis
    by (simp add: locked0_eq run_def handleError_def TIMEOUT_def PERMISSION_DENIED_def
        POSITION_UNAVAILABLE_def startTracking_def updateStatus_def watchPosition_def
        handlePosition_def distFromLast_def fix0_def d gpsToXY_def drawCanvas_def Let_def
        MIN_DISTANCE_def MIN_TIME_BETWEEN_def)
qed

subsection \<open>Clearing\<close>

text \<open>
  C8, as amended. \<^verbatim>\<open>clearGPSPath\<close> changes nothing when the user declines the
  confirmation. Once confirmed it is carried out in every state: it stops tracking if
  tracking is active, resets the points, the origin, the total distance, the start time
  and the retry counter, and requests a redraw.
\<close>

theorem clearGPSPath_effect:
  "clearGPSPath False vg = vg
   \<and> path (clearGPSPath True vg) = []
   \<and> originGPS (clearGPSPath True vg) = None
   \<and> totalDistance (clearGPSPath True vg) = Finite 0
   \<and> startTime (clearGPSPath True vg) = None
   \<and> retryCount (clearGPSPath True vg) = 0
   \<and> isTracking (clearGPSPath True vg) = False
   \<and> redraws (clearGPSPath True vg) = Suc (redraws vg)"
  by (simp add: clearGPSPath_def stopGPSTracking_def drawGPSCanvas_def Let_def
      split: option.split)

text \<open>
  The claim as stated fails: a confirmed clear while tracking is active is not rejected;
  it stops the tracking and empties the path.
\<close>

theorem clear_while_tracking_counterexample:
  "isTracking vehicle1 \<and> path vehicle1 \<noteq> [] \<and> originGPS vehicle1 = Some (- 6, 106)
   \<and> path (clearGPSPath True vehicle1) = []
   \<and> originGPS (clearGPSPath True vehicle1) = None
   \<and> isTracking (clearGPSPath True vehicle1) = False"
  by (simp add: vehicle1_eq clearGPSPath_def stopGPSTracking_def drawGPSCanvas_def)

subsection \<open>Errors of the position source\<close>

text \<open>
  C9, as amended. On a timeout \<^verbatim>\<open>handleError\<close> schedules \<^verbatim>\<open>startTracking\<close> after
  \<open>AUTO_RETRY_DELAY\<close> and changes nothing else, so the status does not become an error;
  on a denied permission and on an unavailable position it sets the error status and
  schedules nothing. The error status is not terminal: whatever the error,
  \<^verbatim>\<open>handleError\<close> leaves the watch subscribed and the pending timers in place, so that
  afterwards a fix that arrives while no origin is set puts the status to locked, and a
  call of \<^verbatim>\<open>startTracking\<close> puts it to Searching.
\<close>

theorem handleError_classes:
  "handleError TIMEOUT pg = pg\<lparr> timers := timers pg @ [(CB_startTracking, AUTO_RETRY_DELAY)] \<rparr>
   \<and> status (handleError TIMEOUT pg) = status pg
   \<and> status (handleError PERMISSION_DENIED pg) = Some (''error'', ''Permission Denied'')
   \<and> timers (handleError PERMISSION_DENIED pg) = timers pg
   \<and> status (handleError POSITION_UNAVAILABLE pg) = Some (''error'', ''Unavailable'')
   \<and> timers (handleError POSITION_UNAVAILABLE pg) = timers pg
   \<and> watches (handleError code pg) = watches pg
   \<and> watchId (handleError code pg) = watchId pg
   \<and> (code \<noteq> TIMEOUT \<longrightarrow> timers (handleError code pg) = timers pg)
   \<and> (originGPS pg = None \<longrightarrow>
        status (handlePosition pos now (handleError code pg)) = Some (''locked'', ''Tracking''))
   \<and> (geolocation pg \<longrightarrow>
        status (startTracking (handleError code pg)) = Some (''searching'', ''Searching''))"
  by (simp add: handleError_def updateStatus_def TIMEOUT_def PERMISSION_DENIED_def
      POSITION_UNAVAILABLE_def handlePosition_def startTracking_def watchPosition_def
      drawCanvas_def Let_def)

theorem handleError_classes_witness:
  "POSITION_UNAVAILABLE \<noteq> TIMEOUT
   \<and> originGPS (startTracking (init_device 300 True rnd_sample)) = None
   \<and> geolocation (startTracking (init_device 300 True rnd_sample))
   \<and> timers (handleError POSITION_UNAVAILABLE (startTracking (init_device 300 True rnd_sample)))
       = [(CB_startTracking, 500)]
   \<and> status (handlePosition fix0 1000
        (handleError POSITION_UNAVAILABLE (startTracking (init_device 300 True rnd_sample))))
       = Some (''locked'', ''Tracking'')
   \<and> status (startTracking
        (handleError POSITION_UNAVAILABLE (startTracking (init_device 300 True rnd_sample))))
       = Some (''searching'', ''Searching'')"
proof -
  have p: "originGPS (startTracking (init_device 300 True rnd_sample)) = None
           \<and> geolocation (startTracking (init_device 300 True rnd_sample))
           \<and> timers (startTracking (init_device 300 True rnd_sample)) = [(CB_startTracking, 500)]"
    by (simp add: init_device_def startTracking_def updateStatus_def watchPosition_def Let_def)
  have c: "POSITION_UNAVAILABLE \<noteq> TIMEOUT"
    by (simp add: POSITION_UNAVAILABLE_def TIMEOUT_def)
  show ?thesis
    using p c
      handleError_classes [of "startTracking (init_device 300 True rnd_sample)"
        POSITION_UNAVAILABLE fix0 1000]
    by simp
qed

text \<open>
  The claim as stated fails: the error status is not terminal. After an unavailable
  position while searching, the next fix locks the tracker; and a retry that an earlier
  timeout left pending restarts the search after a denied permission.
\<close>

theorem error_not_terminal_counterexample:
  "status (run (init_device 300 True rnd_sample) [EvStart, EvError POSITION_UNAVAILABLE])
     = Some (''error'', ''Unavailable'')
   \<and> status (run (init_device 300 True rnd_sample)
        [EvStart, EvError POSITION_UNAVAILABLE, EvPosition fix0 1000])
     = Some (''locked'', ''Tracking'')
   \<and> timers (run (init_device 300 True rnd_sample)
        [EvStart, EvError TIMEOUT, EvError PERMISSION_DENIED])
     = [(CB_startTracking, 500), (CB_startTracking, AUTO_RETRY_DELAY)]
   \<and> status (run (init_device 300 True rnd_sample)
        [EvStart, EvError TIMEOUT, EvError PERMISSION_DENIED])
     = Some (''error'', ''Permission Denied'')
   \<and> status (run (init_device 300 True rnd_sample)
        [EvStart, EvError TIMEOUT, EvError PERMISSION_DENIED, EvStart])
     = Some (''searching'', ''Searching'')"
  by (simp add: run_def init_device_def handleError_def TIMEOUT_def PERMISSION_DENIED_def
      POSITION_UNAVAILABLE_def startTracking_def updateStatus_def watchPosition_def
      handlePosition_def fix0_def gpsToXY_def drawCanvas_def Let_def)

subsection \<open>Positions on the equator or the prime meridian\<close>

text \<open>
  C10. In script.js a position whose latitude or longitude is missing or 0 is dropped:
  \<^verbatim>\<open>updateGPSFromVehicle\<close> and \<^verbatim>\<open>updateGPSPosition\<close> return with the state as it was,
  and in every state reached from the initial one no recorded point has latitude 0 or
  longitude 0.
\<close>

theorem invalid_fix_dropped:
  assumes "lat = None \<or> lat = Some 0 \<or> lon = None \<or> lon = Some 0"
  shows "updateGPSFromVehicle now (vg\<lparr> vehicleLat := lat, vehicleLong := lon \<rparr>)
           = (Returned, vg\<lparr> vehicleLat := lat, vehicleLong := lon \<rparr>)
         \<and> updateGPSPosition now (vg\<lparr> vehicleLat := lat, vehicleLong := lon \<rparr>)
           = (Returned, vg\<lparr> vehicleLat := lat, vehicleLong := lon \<rparr>)
         \<and> (\<forall>p \<in> set (path (vrun (init_vehicle w geo gctx rnd) ves)).
               pt_lat p \<noteq> 0 \<and> pt_lon p \<noteq> 0)"
proof -
  from assms have n: "noFix lat lon"
    by (auto simp: noFix_def truthy_def)
  have "offAxes (init_vehicle w geo gctx rnd)" by (simp add: offAxes_def init_vehicle_def)
  then have "offAxes (vrun (init_vehicle w geo gctx rnd) ves)" by (rule vrun_offAxes)
  then have o: "\<forall>p \<in> set (path (vrun (init_vehicle w geo gctx rnd) ves)).
               pt_lat p \<noteq> 0 \<and> pt_lon p \<noteq> 0"
    by (simp add: offAxes_def)
  from n o show ?thesis
    by (simp add: updateGPSFromVehicle_def updateGPSPosition_def)
qed

theorem invalid_fix_dropped_witness:
  "updateGPSFromVehicle 9000 (vehicle1\<lparr> vehicleLat := Some 0, vehicleLong := Some 106 \<rparr>)
     = (Returned, vehicle1\<lparr> vehicleLat := Some 0, vehicleLong := Some 106 \<rparr>)
   \<and> updateGPSPosition 9000 (vehicle1\<lparr> vehicleLat := Some 0, vehicleLong := Some 106 \<rparr>)
     = (Returned, vehicle1\<lparr> vehicleLat := Some 0, vehicleLong := Some 106 \<rparr>)
   \<and> path (vrun (init_vehicle 300 True True rnd_sample)
        [VStart 100, VBrowserFix fix180, VStart 2100, VPoll (Some 0) (Some 180) 4000]) = []"
proof -
  have e: "path (vrun (init_vehicle 300 True True rnd_sample)
        [VStart 100, VBrowserFix fix180, VStart 2100, VPoll (Some 0) (Some 180) 4000]) = []"
    by (simp add: vrun_def init_vehicle_def startGPSTracking_def updateGPSFromVehicle_def
        noFix_def truthy_def fix180_def Let_def)
  show ?thesis
    using e invalid_fix_dropped [of "Some 0" "Some 106" 9000 vehicle1 300 True True rnd_sample "[]"]
    by simp
qed

end
